theory Spec2Isabelle
  imports Main "HOL-Library.Sublist"
begin

section \<open>The TypeScript translator of apollo-server-codegen\<close>

text \<open>
  A shallow embedding of \<^verbatim>\<open>Translators/TypeScriptTranslator.ts\<close>. Every method of the
  class \<^verbatim>\<open>TypeScriptTranslator\<close> is one HOL function of the same name. JavaScript strings
  are HOL strings (lists of characters), a template literal is a concatenation, and
  \<^verbatim>\<open>Array.prototype.join\<close> and \<^verbatim>\<open>String.prototype.split\<close> are the recursive functions
  \<open>join\<close> and \<open>split\<close> below. No method of the class throws, so every function returns a
  plain string.
\<close>

subsection \<open>Strings and arrays of strings\<close>

text \<open>\<^verbatim>\<open>xs.join(sep)\<close>: the elements with the separator between each two neighbours.\<close>

fun join :: "string \<Rightarrow> string list \<Rightarrow> string" where
  "join sep [] = []"
| "join sep [x] = x"
| "join sep (x # y # ys) = x @ sep @ join sep (y # ys)"

text \<open>\<^verbatim>\<open>s.split(c)\<close> for a separator of one character: the pieces between the separators.\<close>

fun split :: "char \<Rightarrow> string \<Rightarrow> string list" where
  "split c [] = [[]]"
| "split c (x # xs) =
     (if x = c then [] # split c xs
      else (x # hd (split c xs)) # tl (split c xs))"

subsection \<open>The IR nodes\<close>

text \<open>
  Modelled from the spec: the module \<^verbatim>\<open>../IR\<close> that declares the node classes is not among
  the sources. The fields of each node are the ones the translator reads
  (\<^verbatim>\<open>t.name\<close>, \<^verbatim>\<open>t.base\<close>, \<^verbatim>\<open>t.types\<close>, ...); a field named \<^verbatim>\<open>name\<close> in the source carries
  the prefix of its node here, since a record field name is global in HOL.
  The three type nodes are one tagged union; a translator method that takes one kind of
  type node takes the fields of that node.
\<close>

datatype Type =
    NamedType string
  | NonNullType Type
  | ListType Type

text \<open>A compound type is the array \<^verbatim>\<open>t.types\<close> of members \<^verbatim>\<open>{name, type}\<close>.\<close>

record CompoundType =
  ct_types :: "(string \<times> Type) list"

text \<open>A description wraps a documentation text that may be absent.\<close>

record Description =
  description :: "string option"

record ArgumentDefinition =
  ad_name :: string
  ad_type :: Type
  ad_description :: Description

record FieldDefinition =
  fd_name :: string
  fd_type :: Type
  fd_description :: Description

text \<open>
  Of the owning definition \<^verbatim>\<open>t.parent\<close> the translator reads the name only
  (\<^verbatim>\<open>t.parent.name\<close>), so the reference is kept as that name.
\<close>

record ResolverDefinition =
  rd_name :: string
  rd_arguments :: "ArgumentDefinition list"
  rd_type :: Type
  rd_description :: Description
  rd_parent_name :: string
  rd_requires :: CompoundType
  rd_isRootType :: bool
  rd_isNotProvidedAndExternal :: bool

text \<open>
  Modelled from the spec: how \<^verbatim>\<open>../IR\<close> tells an entity from a plain object is not among the
  sources. The spec lists the two as node kinds over one shape of data (the translator takes
  an \<^verbatim>\<open>IR.ObjectDefinition\<close> for both), and speaks of an entity with no key sets as a
  malformed input; \<open>od_kind\<close> says which of the two kinds an object definition is.
\<close>

datatype ObjectKind = PlainObject | EntityObject

record ObjectDefinition =
  od_name :: string
  od_description :: Description
  od_fields :: "FieldDefinition list"
  od_resolvers :: "ResolverDefinition list"
  od_keys :: "CompoundType list"
  od_isRootType :: bool
  od_kind :: ObjectKind

record EnumDefinition =
  ed_name :: string
  ed_values :: "string list"

record ScalarDefinition =
  sd_name :: string

text \<open>The configuration \<^verbatim>\<open>this.options\<close> of the translator.\<close>

record Options =
  experimentalInternalEnumValueSupport :: bool

subsection \<open>Header and aggregate resolver map\<close>

definition generateHeader :: string where
  \<open>generateHeader =
     ''// This is a machine generated file.\<newline>'' @
     ''// Use "apollo service:codegen" to regenerate.\<newline>'' @
     ''type PromiseOrValue<T> = Promise<T> | T\<newline>'' @
     ''type Nullable<T> = T | null | undefined\<newline>'' @
     ''type Index<Map extends Record<string, any>, Key extends string, IfMissing> = Map[Key] extends object ? Map[Key] : IfMissing\<newline>''\<close>

text \<open>The three arrow functions of \<^verbatim>\<open>generateTopLevelResolvers\<close>, one line of the interface each.\<close>

definition typeEntry :: "string \<Rightarrow> string" where
  "typeEntry type =
     (if type = ''Query'' \<or> type = ''Mutation'' \<or> type = ''Subscription''
      then ''  '' @ type @ '': '' @ type @ ''Resolver<TContext, TInternalReps>''
      else ''  '' @ type @ ''?: '' @ type @ ''Resolver<TContext, TInternalReps>'')"

definition scalarEntry :: "string \<Rightarrow> string" where
  "scalarEntry scalar = ''  '' @ scalar @ '': any''"

definition enumEntry :: "string \<Rightarrow> string" where
  "enumEntry enumName =
     ''  '' @ enumName @ '': { [external: '' @ enumName @ ''External]: any }''"

definition generateTopLevelResolvers ::
  "Options \<Rightarrow> string list \<Rightarrow> string list \<Rightarrow> string list \<Rightarrow> string" where
  "generateTopLevelResolvers opts types enums scalars =
     join ''\<newline>''
       ([''export interface Resolvers<TContext = {}, TInternalReps = {}> {''] @
        map typeEntry types @
        map scalarEntry scalars @
        (if experimentalInternalEnumValueSupport opts then map enumEntry enums else []) @
        [''}\<newline>''])"

subsection \<open>Descriptions and types\<close>

definition translateDescription :: "string \<Rightarrow> string" where
  "translateDescription d =
     ''/**\<newline> * '' @ join ''\<newline> * '' (split CHR ''\<newline>'' d) @ ''\<newline> */\<newline>''"

text \<open>
  Modelled from the spec: \<^verbatim>\<open>Description.translate\<close> of \<^verbatim>\<open>../IR\<close>, which "renders as a block
  comment, or an empty string if absent".
\<close>

definition translate_Description :: "Description \<Rightarrow> string" where
  "translate_Description t =
     (case description t of None \<Rightarrow> [] | Some d \<Rightarrow> translateDescription d)"

definition getName :: "string \<Rightarrow> string" where
  "getName name =
     (if name = ''Int'' then ''number''
      else if name = ''Boolean'' then ''boolean''
      else if name = ''ID'' then ''string''
      else if name = ''String'' then ''string''
      else name)"

definition translateNamedType :: "string \<Rightarrow> bool \<Rightarrow> string" where
  "translateNamedType name nullable =
     (if nullable then ''Nullable<'' @ getName name @ ''>'' else getName name)"

text \<open>
  \<open>translate t nullable\<close> is \<^verbatim>\<open>t.translate(this, nullable)\<close> on a type node.
  Modelled from the spec: the dispatch of \<^verbatim>\<open>../IR\<close> from each type node to the translator
  method of its kind; a call \<^verbatim>\<open>t.translate(this)\<close> without the flag is \<open>translate t True\<close>
  ("nullable by default unless wrapped by NonNullType").
\<close>

fun translate :: "Type \<Rightarrow> bool \<Rightarrow> string"
  and translateNonNullType :: "Type \<Rightarrow> string"
  and translateListType :: "Type \<Rightarrow> bool \<Rightarrow> string" where
  "translate (NamedType name) nullable = translateNamedType name nullable"
| "translate (NonNullType base) nullable = translateNonNullType base"
| "translate (ListType base) nullable = translateListType base nullable"
| "translateNonNullType base = translate base False"
| "translateListType base nullable =
     (if nullable then ''Nullable<Array<'' @ translate base True @ ''>>''
      else ''Array<'' @ translate base True @ ''>'')"

text \<open>\<^verbatim>\<open>t instanceof IR.NonNullType\<close> on a type node.\<close>

fun isNonNullType :: "Type \<Rightarrow> bool" where
  "isNonNullType (NonNullType base) = True"
| "isNonNullType _ = False"

definition translateCompoundType :: "CompoundType \<Rightarrow> string" where
  "translateCompoundType t =
     join [] ([''{ ''] @ map (\<lambda>(name, type). name @ '': '' @ translate type True @ '', '') (ct_types t) @ [''}''])"

subsection \<open>Definitions\<close>

definition translateArgumentDefinition :: "ArgumentDefinition \<Rightarrow> string" where
  "translateArgumentDefinition t =
     join []
       [translate_Description (ad_description t),
        ad_name t,
        (if isNonNullType (ad_type t) then '': '' else ''?: ''),
        translate (NonNullType (ad_type t)) True]"

definition argsType :: "ResolverDefinition \<Rightarrow> string" where
  "argsType t =
     (if length (rd_arguments t) \<noteq> 0
      then ''{\<newline>'' @ join ''\<newline>'' (map translateArgumentDefinition (rd_arguments t)) @ ''\<newline>}''
      else ''{}'')"

definition parentType :: "ResolverDefinition \<Rightarrow> string" where
  "parentType t =
     rd_parent_name t @ ''Representation<TInternalReps>'' @
     (if length (ct_types (rd_requires t)) \<noteq> 0
      then '' & '' @ translateCompoundType (rd_requires t) else [])"

definition translateResolverDefinition :: "ResolverDefinition \<Rightarrow> string" where
  "translateResolverDefinition t =
     (if rd_isNotProvidedAndExternal t
      then rd_name t @ '': never // non-resolvable: marked @external and not @provide'd by any fields''
      else
        join []
          [translate_Description (rd_description t),
           rd_name t,
           (if rd_isRootType t then '': '' else ''?: ''),
           ''(parent: '' @ parentType t @ '', args: '' @ argsType t @
             '', context: TContext, info: any) => PromiseOrValue<'' @
             translate (rd_type t) True @ ''>''])"

definition translateFieldDefinition :: "FieldDefinition \<Rightarrow> string" where
  "translateFieldDefinition t =
     join []
       [translate_Description (fd_description t),
        fd_name t,
        ''?: '',
        translate (fd_type t) True]"

definition translateObjectDefinition :: "ObjectDefinition \<Rightarrow> string" where
  \<open>translateObjectDefinition t =
     join []
       ([''type '' @ od_name t @
           ''Representation<TInternalReps extends Record<string, any>> = Index<TInternalReps, "'' @
           od_name t @ ''", any>\<newline>''] @
        (if od_isRootType t then []
         else
           [translate_Description (od_description t),
            ''export interface '' @ od_name t @ '' {\<newline>''] @
           map (\<lambda>field. translateFieldDefinition field @ ''\<newline>'') (od_fields t) @
           [''\<newline>}\<newline>'']) @
        [translate_Description (od_description t),
         ''export interface '' @ od_name t @ ''Resolver<TContext = {}, TInternalReps = {}> {\<newline>''] @
        map (\<lambda>resolver. translateResolverDefinition resolver @ ''\<newline>'') (od_resolvers t) @
        [''\<newline>}\<newline>''])\<close>

definition translateEntityDefinition :: "ObjectDefinition \<Rightarrow> string" where
  \<open>translateEntityDefinition t =
     join []
       ([''type '' @ od_name t @
           ''Representation<TInternalReps extends Record<string, any>> = Index<TInternalReps, "'' @
           od_name t @ ''", {}> & ('',
         join '' | '' (map translateCompoundType (od_keys t)),
         '')\<newline>\<newline>'',
         translate_Description (od_description t),
         ''export type '' @ od_name t @ ''<TInternalReps = {}> = '' @ od_name t @
           ''Representation<TInternalReps> & {\<newline>''] @
        map (\<lambda>field. translateFieldDefinition field @ ''\<newline>'') (od_fields t) @
        [''\<newline>}\<newline>'',
         translate_Description (od_description t),
         ''export interface '' @ od_name t @ ''Resolver<TContext = {}, TInternalReps = {}> {\<newline>'',
         ''  __resolveReference?: (parent: '' @ od_name t @
           ''Representation<{ /* explicity don't pass TInternalReps */ }>, args: {}, context: TContext, info: any) => PromiseOrValue<Nullable<'' @
           od_name t @ ''>>\<newline>''] @
        map (\<lambda>resolver. translateResolverDefinition resolver @ ''\<newline>'') (od_resolvers t) @
        [''\<newline>}\<newline>''])\<close>

text \<open>
  Modelled from the spec: \<^verbatim>\<open>ObjectDefinition.translate\<close> of \<^verbatim>\<open>../IR\<close>, which renders a plain
  object through \<open>translateObjectDefinition\<close> and an entity through
  \<open>translateEntityDefinition\<close>.
\<close>

definition translate_ObjectDefinition :: "ObjectDefinition \<Rightarrow> string" where
  "translate_ObjectDefinition t =
     (case od_kind t of
        PlainObject \<Rightarrow> translateObjectDefinition t
      | EntityObject \<Rightarrow> translateEntityDefinition t)"

definition translateEnumDefinition :: "Options \<Rightarrow> EnumDefinition \<Rightarrow> string" where
  \<open>translateEnumDefinition opts t =
     (let options = join '' | '' (map (\<lambda>value. ''"'' @ value @ ''"'') (ed_values t))
      in if experimentalInternalEnumValueSupport opts
         then join ''\<newline>''
                [''export type '' @ ed_name t @ ''External = '' @ options,
                 ''export type '' @ ed_name t @ '' = any'']
         else ''export type '' @ ed_name t @ '' = '' @ options)\<close>

definition translateScalarDefinition :: "ScalarDefinition \<Rightarrow> string" where
  "translateScalarDefinition t = ''export type '' @ sd_name t @ '' = any''"

subsection \<open>The entry point\<close>

definition generate ::
  "Options \<Rightarrow> ObjectDefinition list \<Rightarrow> EnumDefinition list \<Rightarrow> ScalarDefinition list \<Rightarrow> string" where
  "generate opts objects enums scalars =
     (let header = generateHeader;
          resolvers = generateTopLevelResolvers opts
                        (map od_name objects) (map ed_name enums) (map sd_name scalars);
          translatedObjectDefinitions = join ''\<newline>'' (map translate_ObjectDefinition objects);
          translatedEnumDefinitions = join ''\<newline>'' (map (translateEnumDefinition opts) enums);
          translatedScalarDefinitions = join ''\<newline>'' (map translateScalarDefinition scalars)
      in join ''\<newline>''
           [header, resolvers, translatedObjectDefinitions,
            translatedEnumDefinitions, translatedScalarDefinitions])"


section \<open>Properties\<close>

subsection \<open>Joined arrays\<close>

text \<open>Joining with the empty separator, as \<^verbatim>\<open>join("")\<close> does, is concatenation.\<close>


lemma join_Nil_sep: "join [] xs = concat xs"
  by (induction "[]::string" xs rule: join.induct) auto


lemma last_join:
  "xs \<noteq> [] \<Longrightarrow> \<forall>x\<in>set xs. x \<noteq> [] \<and> last x = c \<Longrightarrow>
   join sep xs \<noteq> [] \<and> last (join sep xs) = c"
  by (induction sep xs rule: join.induct) auto

subsection \<open>The shape of the output\<close>

lemma generate_eq:
  "generate opts objects enums scalars =
     generateHeader @ ''\<newline>'' @
     generateTopLevelResolvers opts (map od_name objects) (map ed_name enums) (map sd_name scalars) @
     ''\<newline>'' @ join ''\<newline>'' (map translate_ObjectDefinition objects) @
     ''\<newline>'' @ join ''\<newline>'' (map (translateEnumDefinition opts) enums) @
     ''\<newline>'' @ join ''\<newline>'' (map translateScalarDefinition scalars)"
  by (simp add: generate_def Let_def)




subsection \<open>Entities without key sets\<close>





subsection \<open>Separation of the declarations\<close>

text \<open>
  C2 as stated fails: two consecutive enum declarations are separated by one newline
  character, so they stand on adjacent lines with no empty line between them.
\<close>

theorem generate_blank_line_counterexample:
  \<open>generate \<lparr>experimentalInternalEnumValueSupport = False\<rparr> []
      [\<lparr>ed_name = ''A'', ed_values = [''X'']\<rparr>, \<lparr>ed_name = ''B'', ed_values = [''Y'']\<rparr>] [] =
    generateHeader @ ''\<newline>'' @
    ''export interface Resolvers<TContext = {}, TInternalReps = {}> {\<newline>'' @
    ''}\<newline>'' @ ''\<newline>'' @ ''\<newline>'' @
    ''export type A = "X"\<newline>'' @
    ''export type B = "Y"'' @ ''\<newline>''
   \<and> \<not> sublist (''export type A = "X"'' @ ''\<newline>\<newline>'' @ ''export type B = "Y"'')
        (generate \<lparr>experimentalInternalEnumValueSupport = False\<rparr> []
          [\<lparr>ed_name = ''A'', ed_values = [''X'']\<rparr>, \<lparr>ed_name = ''B'', ed_values = [''Y'']\<rparr>] [])\<close>
  by (simp add: generate_def generateTopLevelResolvers_def translateEnumDefinition_def
      generateHeader_def sublist_Cons_right)

lemma translateObjectDefinition_suffix: "suffix ''\<newline>}\<newline>'' (translateObjectDefinition t)"
  by (simp add: translateObjectDefinition_def join_Nil_sep suffix_def)

lemma translateEntityDefinition_suffix: "suffix ''\<newline>}\<newline>'' (translateEntityDefinition t)"
  by (simp add: translateEntityDefinition_def join_Nil_sep suffix_def)

lemma translateEnumDefinition_last:
  "last (translateEnumDefinition opts t) \<noteq> CHR ''\<newline>''"
proof (cases "experimentalInternalEnumValueSupport opts")
  case True
  then show ?thesis by (simp add: translateEnumDefinition_def Let_def)
next
  case off: False
  show ?thesis
  proof (cases "ed_values t = []")
    case True
    with off show ?thesis by (simp add: translateEnumDefinition_def)
  next
    case False
    then have "join '' | '' (map (\<lambda>value. [CHR 0x22] @ value @ [CHR 0x22]) (ed_values t)) \<noteq> []
        \<and> last (join '' | '' (map (\<lambda>value. [CHR 0x22] @ value @ [CHR 0x22]) (ed_values t))) = CHR 0x22"
      by (intro last_join) auto
    with off show ?thesis by (simp add: translateEnumDefinition_def)
  qed
qed

text \<open>
  C2, as amended. The output is the five sections in order (header, aggregate Resolvers
  interface, object declarations, enum declarations, scalar declarations) joined by one
  newline character, and the declarations inside each of the sections 3 to 5 are joined by
  one newline character as well. Every object declaration ends with a newline of its own, so
  an empty line follows it; an enum or scalar declaration starts with \<^verbatim>\<open>export type\<close> and
  does not end with a newline, so two consecutive ones stand on adjacent lines.
\<close>

theorem generate_sections:
  "generate opts objects enums scalars =
     generateHeader @ ''\<newline>'' @
     generateTopLevelResolvers opts (map od_name objects) (map ed_name enums) (map sd_name scalars) @
     ''\<newline>'' @ join ''\<newline>'' (map translate_ObjectDefinition objects) @
     ''\<newline>'' @ join ''\<newline>'' (map (translateEnumDefinition opts) enums) @
     ''\<newline>'' @ join ''\<newline>'' (map translateScalarDefinition scalars)
   \<and> suffix ''\<newline>}\<newline>'' (translate_ObjectDefinition t)
   \<and> prefix ''export type '' (translateEnumDefinition opts e)
   \<and> last (translateEnumDefinition opts e) \<noteq> CHR ''\<newline>''
   \<and> prefix ''export type '' (translateScalarDefinition s)
   \<and> last (translateScalarDefinition s) \<noteq> CHR ''\<newline>''"
proof -
  have "suffix ''\<newline>}\<newline>'' (translate_ObjectDefinition t)"
    using translateObjectDefinition_suffix translateEntityDefinition_suffix
    by (simp add: translate_ObjectDefinition_def split: ObjectKind.split)
  moreover have "prefix ''export type '' (translateEnumDefinition opts e)"
    by (simp add: translateEnumDefinition_def Let_def)
  moreover have "prefix ''export type '' (translateScalarDefinition s)"
    by (simp add: translateScalarDefinition_def)
  moreover have "last (translateScalarDefinition s) \<noteq> CHR ''\<newline>''"
    by (simp add: translateScalarDefinition_def)
  ultimately show ?thesis
    using generate_eq translateEnumDefinition_last by simp
qed


subsection \<open>Keys by union, requires by intersection\<close>

text \<open>
  C3. The declaration of an entity starts with its representation alias: the lookup
  \<^verbatim>\<open>Index<TInternalReps, "Name", {}>\<close>, then \<^verbatim>\<open>&\<close>, then in parentheses the renderings of all
  its key sets joined by \<^verbatim>\<open>|\<close>. In the signature of a resolver (one that is not external and
  unprovided) a non-empty \<^verbatim>\<open>requires\<close> compound type follows the parent representation type
  after \<^verbatim>\<open>&\<close>; an empty one leaves the parent representation type alone.
\<close>

theorem keys_union_requires_intersection:
  \<open>prefix (''type '' @ od_name t @
            ''Representation<TInternalReps extends Record<string, any>> = Index<TInternalReps, "'' @
            od_name t @ ''", {}> & ('' @
            join '' | '' (map translateCompoundType (od_keys t)) @ '')\<newline>\<newline>'')
      (translateEntityDefinition t)
   \<and> (\<not> rd_isNotProvidedAndExternal r \<and> ct_types (rd_requires r) \<noteq> [] \<longrightarrow>
        translateResolverDefinition r =
          translate_Description (rd_description r) @ rd_name r @
          (if rd_isRootType r then '': '' else ''?: '') @
          ''(parent: '' @ rd_parent_name r @ ''Representation<TInternalReps> & '' @
          translateCompoundType (rd_requires r) @
          '', args: '' @ argsType r @ '', context: TContext, info: any) => PromiseOrValue<'' @
          translate (rd_type r) True @ ''>'')
   \<and> (\<not> rd_isNotProvidedAndExternal r \<and> ct_types (rd_requires r) = [] \<longrightarrow>
        translateResolverDefinition r =
          translate_Description (rd_description r) @ rd_name r @
          (if rd_isRootType r then '': '' else ''?: '') @
          ''(parent: '' @ rd_parent_name r @ ''Representation<TInternalReps>'' @
          '', args: '' @ argsType r @ '', context: TContext, info: any) => PromiseOrValue<'' @
          translate (rd_type r) True @ ''>'')\<close>
  by (simp add: translateEntityDefinition_def translateResolverDefinition_def parentType_def
      join_Nil_sep)

text \<open>
  C3 at an entity \<^verbatim>\<open>P\<close> with the key sets \<^verbatim>\<open>{id}\<close> and \<^verbatim>\<open>{sku, region}\<close>, at a resolver that
  requires \<^verbatim>\<open>sku\<close> and at one that requires nothing.
\<close>

theorem keys_union_requires_intersection_witness:
  \<open>prefix ''type PRepresentation<TInternalReps extends Record<string, any>> = Index<TInternalReps, "P", {}> & ({ id: Nullable<string>, } | { sku: Nullable<string>, region: Nullable<string>, })\<newline>\<newline>''
      (translateEntityDefinition
         \<lparr>od_name = ''P'', od_description = \<lparr>description = None\<rparr>, od_fields = [],
          od_resolvers = [],
          od_keys = [\<lparr>ct_types = [(''id'', NamedType ''ID'')]\<rparr>,
                     \<lparr>ct_types = [(''sku'', NamedType ''String''), (''region'', NamedType ''String'')]\<rparr>],
          od_isRootType = False, od_kind = EntityObject\<rparr>)
   \<and> translateResolverDefinition
         \<lparr>rd_name = ''price'', rd_arguments = [], rd_type = NonNullType (NamedType ''Int''),
          rd_description = \<lparr>description = None\<rparr>, rd_parent_name = ''P'',
          rd_requires = \<lparr>ct_types = [(''sku'', NonNullType (NamedType ''String''))]\<rparr>,
          rd_isRootType = False, rd_isNotProvidedAndExternal = False\<rparr> =
       ''price?: (parent: PRepresentation<TInternalReps> & { sku: string, }, args: {}, context: TContext, info: any) => PromiseOrValue<number>''
   \<and> translateResolverDefinition
         \<lparr>rd_name = ''name'', rd_arguments = [], rd_type = NamedType ''String'',
          rd_description = \<lparr>description = None\<rparr>, rd_parent_name = ''P'',
          rd_requires = \<lparr>ct_types = []\<rparr>,
          rd_isRootType = False, rd_isNotProvidedAndExternal = False\<rparr> =
       ''name?: (parent: PRepresentation<TInternalReps>, args: {}, context: TContext, info: any) => PromiseOrValue<Nullable<string>>''\<close>
  using keys_union_requires_intersection
      [of "\<lparr>od_name = ''P'', od_description = \<lparr>description = None\<rparr>, od_fields = [],
          od_resolvers = [],
          od_keys = [\<lparr>ct_types = [(''id'', NamedType ''ID'')]\<rparr>,
                     \<lparr>ct_types = [(''sku'', NamedType ''String''), (''region'', NamedType ''String'')]\<rparr>],
          od_isRootType = False, od_kind = EntityObject\<rparr>"
          "\<lparr>rd_name = ''price'', rd_arguments = [], rd_type = NonNullType (NamedType ''Int''),
          rd_description = \<lparr>description = None\<rparr>, rd_parent_name = ''P'',
          rd_requires = \<lparr>ct_types = [(''sku'', NonNullType (NamedType ''String''))]\<rparr>,
          rd_isRootType = False, rd_isNotProvidedAndExternal = False\<rparr>"]
    keys_union_requires_intersection
      [of "\<lparr>od_name = ''P'', od_description = \<lparr>description = None\<rparr>, od_fields = [],
          od_resolvers = [], od_keys = [], od_isRootType = False, od_kind = EntityObject\<rparr>"
          "\<lparr>rd_name = ''name'', rd_arguments = [], rd_type = NamedType ''String'',
          rd_description = \<lparr>description = None\<rparr>, rd_parent_name = ''P'',
          rd_requires = \<lparr>ct_types = []\<rparr>,
          rd_isRootType = False, rd_isNotProvidedAndExternal = False\<rparr>"]
  by (simp add: translateCompoundType_def join_Nil_sep translateNamedType_def getName_def
      translate_Description_def argsType_def)

subsection \<open>External resolvers that no field provides\<close>

text \<open>
  C4. A resolver with \<^verbatim>\<open>isNotProvidedAndExternal\<close> renders as its name, \<^verbatim>\<open>: never\<close> and the fixed
  comment, and as nothing else: no parenthesis and no \<^verbatim>\<open>>\<close> (so no parameter list, no arrow and
  no return type) occurs in the output unless the name itself holds one, and the arguments,
  the return type, the parent, the requires clause, the root flag and the description have no
  influence on it.
\<close>

theorem external_resolver_never:
  assumes "rd_isNotProvidedAndExternal t"
  shows "translateResolverDefinition t =
           rd_name t @ '': never // non-resolvable: marked @external and not @provide'd by any fields''
         \<and> (CHR ''('' \<notin> set (rd_name t) \<longrightarrow> CHR ''('' \<notin> set (translateResolverDefinition t))
         \<and> (CHR ''>'' \<notin> set (rd_name t) \<longrightarrow> CHR ''>'' \<notin> set (translateResolverDefinition t))
         \<and> translateResolverDefinition
              (t\<lparr>rd_arguments := args, rd_type := ty, rd_parent_name := p, rd_requires := req,
                 rd_isRootType := root, rd_description := d\<rparr>) = translateResolverDefinition t"
  using assms by (simp add: translateResolverDefinition_def)

text \<open>C4 at an external resolver \<^verbatim>\<open>secret\<close> that has an argument, a description and a requires clause.\<close>

theorem external_resolver_never_witness:
  "translateResolverDefinition
     \<lparr>rd_name = ''secret'', rd_arguments = [\<lparr>ad_name = ''n'', ad_type = NamedType ''Int'',
         ad_description = \<lparr>description = None\<rparr>\<rparr>], rd_type = NamedType ''String'',
      rd_description = \<lparr>description = Some ''hidden''\<rparr>, rd_parent_name = ''P'',
      rd_requires = \<lparr>ct_types = [(''sku'', NamedType ''String'')]\<rparr>,
      rd_isRootType = False, rd_isNotProvidedAndExternal = True\<rparr> =
   ''secret: never // non-resolvable: marked @external and not @provide'd by any fields''
   \<and> CHR ''('' \<notin> set (translateResolverDefinition
     \<lparr>rd_name = ''secret'', rd_arguments = [\<lparr>ad_name = ''n'', ad_type = NamedType ''Int'',
         ad_description = \<lparr>description = None\<rparr>\<rparr>], rd_type = NamedType ''String'',
      rd_description = \<lparr>description = Some ''hidden''\<rparr>, rd_parent_name = ''P'',
      rd_requires = \<lparr>ct_types = [(''sku'', NamedType ''String'')]\<rparr>,
      rd_isRootType = False, rd_isNotProvidedAndExternal = True\<rparr>)
   \<and> CHR ''>'' \<notin> set (translateResolverDefinition
     \<lparr>rd_name = ''secret'', rd_arguments = [\<lparr>ad_name = ''n'', ad_type = NamedType ''Int'',
         ad_description = \<lparr>description = None\<rparr>\<rparr>], rd_type = NamedType ''String'',
      rd_description = \<lparr>description = Some ''hidden''\<rparr>, rd_parent_name = ''P'',
      rd_requires = \<lparr>ct_types = [(''sku'', NamedType ''String'')]\<rparr>,
      rd_isRootType = False, rd_isNotProvidedAndExternal = True\<rparr>)"
  using external_resolver_never
    [of "\<lparr>rd_name = ''secret'', rd_arguments = [\<lparr>ad_name = ''n'', ad_type = NamedType ''Int'',
         ad_description = \<lparr>description = None\<rparr>\<rparr>], rd_type = NamedType ''String'',
      rd_description = \<lparr>description = Some ''hidden''\<rparr>, rd_parent_name = ''P'',
      rd_requires = \<lparr>ct_types = [(''sku'', NamedType ''String'')]\<rparr>,
      rd_isRootType = False, rd_isNotProvidedAndExternal = True\<rparr>"]
  by simp

subsection \<open>Nullability of types\<close>

text \<open>
  C6. A named type rendered with \<^verbatim>\<open>nullable = true\<close> is its rendering with \<^verbatim>\<open>nullable = false\<close>
  inside \<^verbatim>\<open>Nullable<...>\<close>. A non-null type renders as its base with \<^verbatim>\<open>nullable = false\<close>
  whatever flag its caller passes, so wrapping a non-null type in a second non-null type
  changes nothing.
\<close>

theorem nullable_wraps_nonnull_absolute:
  "translateNamedType name True = ''Nullable<'' @ translateNamedType name False @ ''>''
   \<and> translate (NamedType name) True = ''Nullable<'' @ translate (NamedType name) False @ ''>''
   \<and> translate (NonNullType x) nullable = translate x False
   \<and> translate (NonNullType x) True = translate (NonNullType x) False
   \<and> translate (NonNullType (NonNullType x)) nullable = translate (NonNullType x) nullable'"
  by (simp add: translateNamedType_def)

text \<open>C6 at \<^verbatim>\<open>Int\<close> and at the list of \<^verbatim>\<open>Int\<close> under one and under two non-null wrappers.\<close>

theorem nullable_wraps_nonnull_absolute_witness:
  "translate (NamedType ''Int'') True = ''Nullable<number>''
   \<and> translate (NamedType ''Int'') False = ''number''
   \<and> translate (NonNullType (NonNullType (ListType (NamedType ''Int'')))) True = ''Array<Nullable<number>>''
   \<and> translate (NonNullType (ListType (NamedType ''Int''))) True = ''Array<Nullable<number>>''"
  using nullable_wraps_nonnull_absolute [of "''Int''" "ListType (NamedType ''Int'')" True True]
  by (simp add: translateNamedType_def getName_def)

text \<open>
  C7. \<^verbatim>\<open>Int\<close>, \<^verbatim>\<open>Boolean\<close>, \<^verbatim>\<open>ID\<close> and \<^verbatim>\<open>String\<close> render as \<^verbatim>\<open>number\<close>, \<^verbatim>\<open>boolean\<close>, \<^verbatim>\<open>string\<close> and
  \<^verbatim>\<open>string\<close>, every other name renders as itself, and the result stands inside
  \<^verbatim>\<open>Nullable<...>\<close> exactly when the flag is true.
\<close>

theorem named_type_primitives:
  "translateNamedType ''Int'' False = ''number''
   \<and> translateNamedType ''Boolean'' False = ''boolean''
   \<and> translateNamedType ''ID'' False = ''string''
   \<and> translateNamedType ''String'' False = ''string''
   \<and> (name \<noteq> ''Int'' \<and> name \<noteq> ''Boolean'' \<and> name \<noteq> ''ID'' \<and> name \<noteq> ''String'' \<longrightarrow>
        translateNamedType name False = name)
   \<and> translateNamedType name nullable =
       (if nullable then ''Nullable<'' @ translateNamedType name False @ ''>''
        else translateNamedType name False)"
  by (simp add: translateNamedType_def getName_def)

text \<open>C7 at the user type \<^verbatim>\<open>User\<close> and at \<^verbatim>\<open>ID\<close>.\<close>

theorem named_type_primitives_witness:
  "translateNamedType ''User'' False = ''User''
   \<and> translateNamedType ''User'' True = ''Nullable<User>''
   \<and> translateNamedType ''ID'' True = ''Nullable<string>''"
  using named_type_primitives [of "''User''" True] named_type_primitives [of "''ID''" True]
  by simp


subsection \<open>Arguments\<close>





subsection \<open>Enums\<close>

text \<open>
  C9. With the option for internal enum values off, an enum renders as one alias
  \<^verbatim>\<open>export type Name = \<close> followed by its quoted values joined by \<^verbatim>\<open>|\<close>. With the option on it
  renders as two aliases on two lines: \<^verbatim>\<open>NameExternal\<close> for that union and \<^verbatim>\<open>Name = any\<close>.
\<close>

theorem enum_aliases:
  \<open>(\<not> experimentalInternalEnumValueSupport opts \<longrightarrow>
      translateEnumDefinition opts t =
        ''export type '' @ ed_name t @ '' = '' @
        join '' | '' (map (\<lambda>value. ''"'' @ value @ ''"'') (ed_values t)))
   \<and> (experimentalInternalEnumValueSupport opts \<longrightarrow>
      translateEnumDefinition opts t =
        ''export type '' @ ed_name t @ ''External = '' @
        join '' | '' (map (\<lambda>value. ''"'' @ value @ ''"'') (ed_values t)) @ ''\<newline>'' @
        ''export type '' @ ed_name t @ '' = any'')\<close>
  by (simp add: translateEnumDefinition_def)

text \<open>C9 at the enum \<^verbatim>\<open>Color\<close> with the values \<^verbatim>\<open>RED\<close> and \<^verbatim>\<open>BLUE\<close>, with the option off and on.\<close>

theorem enum_aliases_witness:
  \<open>translateEnumDefinition \<lparr>experimentalInternalEnumValueSupport = False\<rparr>
      \<lparr>ed_name = ''Color'', ed_values = [''RED'', ''BLUE'']\<rparr> =
    ''export type Color = "RED" | "BLUE"''
   \<and> translateEnumDefinition \<lparr>experimentalInternalEnumValueSupport = True\<rparr>
      \<lparr>ed_name = ''Color'', ed_values = [''RED'', ''BLUE'']\<rparr> =
    ''export type ColorExternal = "RED" | "BLUE"\<newline>export type Color = any''\<close>
  using enum_aliases [of "\<lparr>experimentalInternalEnumValueSupport = False\<rparr>"
                         "\<lparr>ed_name = ''Color'', ed_values = [''RED'', ''BLUE'']\<rparr>"]
    enum_aliases [of "\<lparr>experimentalInternalEnumValueSupport = True\<rparr>"
                     "\<lparr>ed_name = ''Color'', ed_values = [''RED'', ''BLUE'']\<rparr>"]
  by simp

subsection \<open>Entries of the aggregate resolver map\<close>






subsection \<open>Root types\<close>







end
